theory Spec2Isabelle
  imports Complex_Main
begin

section \<open>Data model (app/models)\<close>

text \<open>
  The enumerations of \<^verbatim>\<open>app/models/room.py\<close> and \<^verbatim>\<open>app/models/booking.py\<close>.
  Three of them share the member names PENDING and COMPLETED, so the members of the
  booking, payment and tenancy enumerations carry a one-letter prefix.
\<close>

datatype RoomStatus = AVAILABLE | OCCUPIED | RESERVED | UNDER_MAINTENANCE | INACTIVE

datatype RoomType = SINGLE | DOUBLE | SHARED | APARTMENT | FLAT | HOUSE

datatype FurnishingStatus = FURNISHED | SEMI_FURNISHED | UNFURNISHED

datatype BookingStatus = B_PENDING | B_APPROVED | B_REJECTED | B_CANCELLED | B_COMPLETED

datatype PaymentStatus = P_PENDING | P_COMPLETED | P_FAILED | P_REFUNDED

datatype TenancyStatus = T_PENDING | T_ACTIVE | T_COMPLETED | T_TERMINATED

text \<open>The \<^verbatim>\<open>.value\<close> of an enumeration member.\<close>

fun room_status_value :: "RoomStatus \<Rightarrow> string" where
  "room_status_value AVAILABLE = ''available''"
| "room_status_value OCCUPIED = ''occupied''"
| "room_status_value RESERVED = ''reserved''"
| "room_status_value UNDER_MAINTENANCE = ''under_maintenance''"
| "room_status_value INACTIVE = ''inactive''"

fun room_type_value :: "RoomType \<Rightarrow> string" where
  "room_type_value SINGLE = ''single''"
| "room_type_value DOUBLE = ''double''"
| "room_type_value SHARED = ''shared''"
| "room_type_value APARTMENT = ''apartment''"
| "room_type_value FLAT = ''flat''"
| "room_type_value HOUSE = ''house''"

fun furnishing_status_value :: "FurnishingStatus \<Rightarrow> string" where
  "furnishing_status_value FURNISHED = ''furnished''"
| "furnishing_status_value SEMI_FURNISHED = ''semi_furnished''"
| "furnishing_status_value UNFURNISHED = ''unfurnished''"

fun booking_status_value :: "BookingStatus \<Rightarrow> string" where
  "booking_status_value B_PENDING = ''pending''"
| "booking_status_value B_APPROVED = ''approved''"
| "booking_status_value B_REJECTED = ''rejected''"
| "booking_status_value B_CANCELLED = ''cancelled''"
| "booking_status_value B_COMPLETED = ''completed''"

text \<open>
  Calling an enumeration class on a string (\<^verbatim>\<open>RoomStatus(s)\<close>) returns the member with
  that value and raises ValueError when there is none; the failure is \<open>None\<close> here.
\<close>

definition RoomStatus_of :: "string \<Rightarrow> RoomStatus option" where
  "RoomStatus_of v =
     find (\<lambda>e. room_status_value e = v) [AVAILABLE, OCCUPIED, RESERVED, UNDER_MAINTENANCE, INACTIVE]"

definition RoomType_of :: "string \<Rightarrow> RoomType option" where
  "RoomType_of v =
     find (\<lambda>e. room_type_value e = v) [SINGLE, DOUBLE, SHARED, APARTMENT, FLAT, HOUSE]"

definition FurnishingStatus_of :: "string \<Rightarrow> FurnishingStatus option" where
  "FurnishingStatus_of v =
     find (\<lambda>e. furnishing_status_value e = v) [FURNISHED, SEMI_FURNISHED, UNFURNISHED]"

text \<open>
  \<^verbatim>\<open>str.lower()\<close> on the letters A to Z. Every other byte is kept, and no member value
  above contains a letter that a non-ASCII character lowers to, so the enumeration
  lookups agree with Python's on every input.
\<close>

definition lower_char :: "char \<Rightarrow> char" where
  "lower_char c =
     (case map_of (zip ''ABCDEFGHIJKLMNOPQRSTUVWXYZ'' ''abcdefghijklmnopqrstuvwxyz'') c of
        None \<Rightarrow> c | Some d \<Rightarrow> d)"

definition lower :: "string \<Rightarrow> string" where
  "lower s = map lower_char s"

text \<open>
  Timestamps are integers (seconds); \<^verbatim>\<open>datetime.utcnow()\<close> is an argument of the
  operation that reads the clock. Amounts are the \<^verbatim>\<open>Float\<close> columns, read as real numbers.
\<close>

type_synonym datetime = int

record User =
  user_id :: int
  user_type :: string

text \<open>
  Of the listing columns of a room, the ones an operation below reads or that identify the
  listing are kept; address, coordinates, room counts and the amenity flags are written by
  the listing endpoints only and read by none of the operations modelled.
\<close>

record Room =
  room_id :: int
  owner_id :: int
  title :: string
  room_type :: RoomType
  furnishing_status :: "FurnishingStatus option"
  price_per_month :: real
  r_security_deposit :: "real option"
  r_advance_payment :: "real option"
  r_status :: RoomStatus

record Booking =
  booking_id :: int
  b_tenant_id :: int
  b_landlord_id :: int
  b_room_id :: int
  start_date :: datetime
  end_date :: "datetime option"
  monthly_rent :: real
  b_security_deposit :: "real option"
  b_advance_payment :: "real option"
  b_status :: BookingStatus
  tenancy_status :: "TenancyStatus option"
  tenant_message :: "string option"
  landlord_response :: "string option"
  approved_at :: "datetime option"

record Payment =
  payment_id :: int
  p_booking_id :: int
  p_tenant_id :: int
  p_landlord_id :: int
  amount :: real
  payment_type :: string
  payment_month :: "string option"
  transaction_uuid :: "string option"
  esewa_ref_id :: "string option"
  esewa_signature :: "string option"
  p_status :: PaymentStatus
  completed_at :: "datetime option"

text \<open>
  The database session: each table is the list of its rows in insertion order.
  \<^verbatim>\<open>query.filter(c).first()\<close> is \<^const>\<open>find\<close>; assigning to an attribute of the object
  it returned rewrites that row, which is \<open>update_first\<close> with the condition of the query.
\<close>

record db =
  users :: "User list"
  rooms :: "Room list"
  bookings :: "Booking list"
  payments :: "Payment list"

fun update_first :: "('a \<Rightarrow> bool) \<Rightarrow> ('a \<Rightarrow> 'a) \<Rightarrow> 'a list \<Rightarrow> 'a list" where
  "update_first P f [] = []"
| "update_first P f (x # xs) = (if P x then f x # xs else x # update_first P f xs)"

fun delete_first :: "('a \<Rightarrow> bool) \<Rightarrow> 'a list \<Rightarrow> 'a list" where
  "delete_first P [] = []"
| "delete_first P (x # xs) = (if P x then xs else x # delete_first P xs)"

text \<open>
  The integer primary key the database gives a new row: one more than the largest key
  in the table.
\<close>

definition next_id :: "int list \<Rightarrow> int" where
  "next_id ks = fold max ks 0 + 1"

text \<open>
  \<^verbatim>\<open>error_response(message, status_code)\<close>. An operation returns either that or, on
  success, the committed session.
\<close>

datatype error = Error nat string

definition HTTP_400_BAD_REQUEST :: nat where "HTTP_400_BAD_REQUEST = 400"
definition HTTP_403_FORBIDDEN :: nat where "HTTP_403_FORBIDDEN = 403"
definition HTTP_404_NOT_FOUND :: nat where "HTTP_404_NOT_FOUND = 404"
definition HTTP_500_INTERNAL_SERVER_ERROR :: nat where "HTTP_500_INTERNAL_SERVER_ERROR = 500"

text \<open>\<^verbatim>\<open>x or 0\<close> on a nullable Float column: None and 0.0 are both falsy.\<close>

definition or0 :: "real option \<Rightarrow> real" where
  "or0 x = (case x of None \<Rightarrow> 0 | Some v \<Rightarrow> if v = 0 then 0 else v)"

section \<open>Payment gateway adapter (app/utils/esewa.py)\<close>

text \<open>
  Two library functions are arguments of the adapter, bundled in one record:
  \<open>hmac_sha256_b64 key msg\<close> is
  \<^verbatim>\<open>base64.b64encode(hmac.new(key, msg, hashlib.sha256).digest())\<close> and \<open>str_float\<close> is
  the text Python's \<^verbatim>\<open>str\<close> and f-strings give a float.
\<close>

record pylib =
  hmac_sha256_b64 :: "string \<Rightarrow> string \<Rightarrow> string"
  str_float :: "real \<Rightarrow> string"

definition TEST_SECRET_KEY :: string where
  "TEST_SECRET_KEY = ''8gBm/:&EnhH.1/q''"

definition TEST_PRODUCT_CODE :: string where
  "TEST_PRODUCT_CODE = ''EPAYTEST''"

record EsewaPayment =
  e_amount :: real
  tax_amount :: real
  total_amount :: real
  product_code :: string
  product_service_charge :: real
  product_delivery_charge :: real
  e_transaction_uuid :: string
  success_url :: string
  failure_url :: string
  secret_key :: string

text \<open>
  The constructor as the endpoints call it: amount, total amount, transaction id and the
  two URLs are given, every other argument has its default.
\<close>

definition EsewaPayment_init ::
  "real \<Rightarrow> real option \<Rightarrow> string \<Rightarrow> string \<Rightarrow> string \<Rightarrow> EsewaPayment" where
  "EsewaPayment_init amt tot uuid s_url f_url =
     \<lparr> e_amount = amt,
       tax_amount = 0,
       total_amount = (case tot of
                         None \<Rightarrow> amt + 0
                       | Some t \<Rightarrow> if t \<noteq> 0 then t else amt + 0),
       product_code = TEST_PRODUCT_CODE,
       product_service_charge = 0,
       product_delivery_charge = 0,
       e_transaction_uuid = uuid,
       success_url = s_url,
       failure_url = f_url,
       secret_key = TEST_SECRET_KEY \<rparr>"

definition default_success_url :: string where
  "default_success_url = ''http://localhost:3000/payment/success''"

definition default_failure_url :: string where
  "default_failure_url = ''http://localhost:3000/payment/failure''"

definition string_to_sign :: "string \<Rightarrow> string \<Rightarrow> string \<Rightarrow> string" where
  "string_to_sign tot uuid code =
     ''total_amount='' @ tot @ '',transaction_uuid='' @ uuid @ '',product_code='' @ code"

definition generate_signature :: "pylib \<Rightarrow> EsewaPayment \<Rightarrow> string" where
  "generate_signature L e =
     hmac_sha256_b64 L (secret_key e)
       (string_to_sign (str_float L (total_amount e)) (e_transaction_uuid e) (product_code e))"

text \<open>The form is the dictionary of the source, as the list of its items in order.\<close>

definition generate_form_data :: "pylib \<Rightarrow> EsewaPayment \<Rightarrow> (string \<times> string) list" where
  "generate_form_data L e =
     [ (''amount'', str_float L (total_amount e)),
       (''tax_amount'', str_float L (tax_amount e)),
       (''product_code'', product_code e),
       (''product_service_charge'', str_float L (product_service_charge e)),
       (''product_delivery_charge'', str_float L (product_delivery_charge e)),
       (''total_amount'', str_float L (total_amount e)),
       (''transaction_uuid'', e_transaction_uuid e),
       (''product_name'', ''Room Booking''),
       (''success_url'', success_url e),
       (''failure_url'', failure_url e),
       (''signed_field_names'', ''total_amount,transaction_uuid,product_code''),
       (''signature'', generate_signature L e) ]"

text \<open>\<^verbatim>\<open>data.get(k)\<close> inside an f-string: a missing key prints as None.\<close>

definition get_str :: "(string \<times> string) list \<Rightarrow> string \<Rightarrow> string" where
  "get_str data k = (case map_of data k of None \<Rightarrow> ''None'' | Some v \<Rightarrow> v)"

definition verify_signature ::
  "pylib \<Rightarrow> EsewaPayment \<Rightarrow> string \<Rightarrow> (string \<times> string) list \<Rightarrow> bool" where
  "verify_signature L e received_signature data =
     (let expected_signature_b64 =
            hmac_sha256_b64 L (secret_key e)
              (string_to_sign (get_str data ''total_amount'')
                 (get_str data ''transaction_uuid'') (get_str data ''product_code''))
      in received_signature = expected_signature_b64)"

section \<open>Booking and payment endpoints (app/api/v1/booking.py)\<close>

text \<open>
  The request bodies. A date field holds what \<^verbatim>\<open>datetime.fromisoformat\<close> makes of the
  submitted text: \<open>None\<close> where it raises ValueError. For the optional end date the outer
  \<open>None\<close> is an absent or empty field, which the endpoint does not parse.
\<close>

record BookingRequest =
  bd_room_id :: int
  bd_start_date :: "datetime option"
  bd_end_date :: "datetime option option"
  bd_tenant_message :: "string option"

record PaymentRequest =
  pd_booking_id :: int
  pd_payment_type :: string
  pd_payment_month :: "string option"

text \<open>
  The reject body is optional and so is its one field \<^verbatim>\<open>landlord_response\<close>: the outer
  \<open>None\<close> is a request without a body.
\<close>

type_synonym RejectRequest = "string option"

text \<open>The placeholder for the authenticated principal: the first user of the role.\<close>

definition first_tenant :: "db \<Rightarrow> User option" where
  "first_tenant s = find (\<lambda>u. user_type u \<in> set [''tenant'', ''TENANT'']) (users s)"

definition first_landlord :: "db \<Rightarrow> User option" where
  "first_landlord s = find (\<lambda>u. user_type u \<in> set [''landlord'', ''LANDLORD'']) (users s)"

definition get_room :: "db \<Rightarrow> int \<Rightarrow> Room option" where
  "get_room s rid = find (\<lambda>r. room_id r = rid) (rooms s)"

definition get_booking :: "db \<Rightarrow> int \<Rightarrow> Booking option" where
  "get_booking s bid = find (\<lambda>b. booking_id b = bid) (bookings s)"

definition get_payment :: "db \<Rightarrow> string \<Rightarrow> Payment option" where
  "get_payment s uuid = find (\<lambda>p. transaction_uuid p = Some uuid) (payments s)"

definition set_room_status :: "int \<Rightarrow> RoomStatus \<Rightarrow> Room list \<Rightarrow> Room list" where
  "set_room_status rid st rs =
     update_first (\<lambda>r. room_id r = rid) (\<lambda>r. r\<lparr>r_status := st\<rparr>) rs"

text \<open>
  \<^verbatim>\<open>db.add(new_payment); db.commit()\<close>. The column \<^verbatim>\<open>transaction_uuid\<close> is declared
  unique: a second row with the same identifier makes the commit raise, nothing of the
  request is written, and the handler for unhandled exceptions answers 500.
\<close>

definition add_payment :: "Payment \<Rightarrow> db \<Rightarrow> error + db" where
  "add_payment p s =
     (if transaction_uuid p \<noteq> None \<and> transaction_uuid p \<in> set (map transaction_uuid (payments s))
      then Inl (Error HTTP_500_INTERNAL_SERVER_ERROR ''Internal server error'')
      else Inr (s\<lparr>payments := payments s @ [p]\<rparr>))"

text \<open>
  \<^verbatim>\<open>create_booking_request\<close>. The argument \<open>uuid\<close> is the value of \<^verbatim>\<open>str(uuid.uuid4())\<close>.
  The gateway form of the response is \<open>generate_form_data\<close> on the total; the response
  envelope itself is not part of the state and is left out.
\<close>

definition create_booking_request :: "db \<Rightarrow> BookingRequest \<Rightarrow> string \<Rightarrow> error + db" where
  "create_booking_request s booking_data uuid =
     (case first_tenant s of
        None \<Rightarrow> Inl (Error HTTP_404_NOT_FOUND ''Tenant not found'')
      | Some tenant \<Rightarrow>
     (case get_room s (bd_room_id booking_data) of
        None \<Rightarrow> Inl (Error HTTP_404_NOT_FOUND ''Room not found'')
      | Some room \<Rightarrow>
     if r_status room \<noteq> AVAILABLE
     then Inl (Error HTTP_400_BAD_REQUEST ''Room is not available for booking'')
     else
     (case find (\<lambda>b. b_tenant_id b = user_id tenant
                    \<and> b_room_id b = bd_room_id booking_data
                    \<and> b_status b \<in> set [B_PENDING, B_APPROVED]) (bookings s) of
        Some existing_booking \<Rightarrow>
          Inl (Error HTTP_400_BAD_REQUEST
                 ''You already have a pending or approved booking request for this room'')
      | None \<Rightarrow>
     (let security_deposit = or0 (r_security_deposit room);
          advance_payment = or0 (r_advance_payment room);
          total_payment = security_deposit + advance_payment
      in
     if total_payment \<le> 0
     then Inl (Error HTTP_400_BAD_REQUEST
                 ''Security Deposit and Advance Payment are required for booking'')
     else
     (case (bd_start_date booking_data, bd_end_date booking_data) of
        (None, _) \<Rightarrow> Inl (Error HTTP_400_BAD_REQUEST ''Invalid date format'')
      | (Some start, Some None) \<Rightarrow> Inl (Error HTTP_400_BAD_REQUEST ''Invalid date format'')
      | (Some start, e) \<Rightarrow>
     (let new_booking =
            \<lparr> booking_id = next_id (map booking_id (bookings s)),
              b_tenant_id = user_id tenant,
              b_landlord_id = owner_id room,
              b_room_id = bd_room_id booking_data,
              start_date = start,
              end_date = (case e of None \<Rightarrow> None | Some d \<Rightarrow> d),
              monthly_rent = price_per_month room,
              b_security_deposit = Some security_deposit,
              b_advance_payment = Some advance_payment,
              b_status = B_PENDING,
              tenancy_status = Some T_PENDING,
              tenant_message = bd_tenant_message booking_data,
              landlord_response = None,
              approved_at = None \<rparr>;
          new_payment =
            \<lparr> payment_id = next_id (map payment_id (payments s)),
              p_booking_id = booking_id new_booking,
              p_tenant_id = user_id tenant,
              p_landlord_id = owner_id room,
              amount = total_payment,
              payment_type = ''booking_payment'',
              payment_month = None,
              transaction_uuid = Some uuid,
              esewa_ref_id = None,
              esewa_signature = None,
              p_status = P_PENDING,
              completed_at = None \<rparr>
      in add_payment new_payment
           (s\<lparr> bookings := bookings s @ [new_booking],
               rooms := set_room_status (bd_room_id booking_data) RESERVED (rooms s) \<rparr>)))))))"

definition approve_booking :: "db \<Rightarrow> int \<Rightarrow> datetime \<Rightarrow> error + db" where
  "approve_booking s bid now =
     (case first_landlord s of
        None \<Rightarrow> Inl (Error HTTP_404_NOT_FOUND ''Landlord not found'')
      | Some landlord \<Rightarrow>
     (case get_booking s bid of
        None \<Rightarrow> Inl (Error HTTP_404_NOT_FOUND ''Booking not found'')
      | Some booking \<Rightarrow>
     if b_landlord_id booking \<noteq> user_id landlord
     then Inl (Error HTTP_403_FORBIDDEN ''Unauthorized'')
     else if b_status booking \<noteq> B_PENDING
     then Inl (Error HTTP_400_BAD_REQUEST
                 (''Booking is already '' @ booking_status_value (b_status booking)))
     else Inr (s\<lparr> bookings :=
                   update_first (\<lambda>b. booking_id b = bid)
                     (\<lambda>b. b\<lparr> b_status := B_APPROVED,
                             tenancy_status := Some T_PENDING,
                             approved_at := Some now \<rparr>) (bookings s),
                 rooms := set_room_status (b_room_id booking) RESERVED (rooms s) \<rparr>)))"

definition reject_booking :: "db \<Rightarrow> int \<Rightarrow> RejectRequest option \<Rightarrow> error + db" where
  "reject_booking s bid reject_data =
     (case first_landlord s of
        None \<Rightarrow> Inl (Error HTTP_404_NOT_FOUND ''Landlord not found'')
      | Some landlord \<Rightarrow>
     (case get_booking s bid of
        None \<Rightarrow> Inl (Error HTTP_404_NOT_FOUND ''Booking not found'')
      | Some booking \<Rightarrow>
     if b_landlord_id booking \<noteq> user_id landlord
     then Inl (Error HTTP_403_FORBIDDEN ''Unauthorized'')
     else Inr (s\<lparr> bookings :=
                   update_first (\<lambda>b. booking_id b = bid)
                     (\<lambda>b. b\<lparr> b_status := B_REJECTED,
                             landlord_response :=
                               (case reject_data of
                                  Some (Some r) \<Rightarrow> if r \<noteq> [] then Some r else Some ''Booking rejected''
                                | _ \<Rightarrow> Some ''Booking rejected'') \<rparr>) (bookings s),
                 rooms := set_room_status (b_room_id booking) AVAILABLE (rooms s) \<rparr>)))"

definition initiate_payment :: "db \<Rightarrow> int \<Rightarrow> PaymentRequest \<Rightarrow> string \<Rightarrow> error + db" where
  "initiate_payment s bid payment_data uuid =
     (case first_tenant s of
        None \<Rightarrow> Inl (Error HTTP_404_NOT_FOUND ''Tenant not found'')
      | Some tenant \<Rightarrow>
     (case get_booking s bid of
        None \<Rightarrow> Inl (Error HTTP_404_NOT_FOUND ''Booking not found'')
      | Some booking \<Rightarrow>
     if b_tenant_id booking \<noteq> user_id tenant
     then Inl (Error HTTP_403_FORBIDDEN ''Unauthorized'')
     else if b_status booking \<noteq> B_APPROVED
     then Inl (Error HTTP_400_BAD_REQUEST ''Booking must be approved before payment'')
     else
     (case (if pd_payment_type payment_data = ''rent'' then Some (monthly_rent booking)
            else if pd_payment_type payment_data = ''security_deposit''
            then Some (or0 (b_security_deposit booking))
            else if pd_payment_type payment_data = ''advance''
            then Some (or0 (b_advance_payment booking))
            else None) of
        None \<Rightarrow> Inl (Error HTTP_400_BAD_REQUEST ''Invalid payment type'')
      | Some amt \<Rightarrow>
     if amt \<le> 0
     then Inl (Error HTTP_400_BAD_REQUEST ''Invalid payment amount'')
     else add_payment
            \<lparr> payment_id = next_id (map payment_id (payments s)),
              p_booking_id = bid,
              p_tenant_id = user_id tenant,
              p_landlord_id = b_landlord_id booking,
              amount = amt,
              payment_type = pd_payment_type payment_data,
              payment_month = pd_payment_month payment_data,
              transaction_uuid = Some uuid,
              esewa_ref_id = None,
              esewa_signature = None,
              p_status = P_PENDING,
              completed_at = None \<rparr> s)))"

text \<open>
  \<^verbatim>\<open>verify_payment\<close>: the callback carries the transaction id, the gateway's reference and
  the signature; the amount that is signed is read from the stored payment.
\<close>

definition verify_payment ::
  "pylib \<Rightarrow> db \<Rightarrow> string \<Rightarrow> string \<Rightarrow> string \<Rightarrow> datetime \<Rightarrow> error + db" where
  "verify_payment L s uuid ref_id signature now =
     (case get_payment s uuid of
        None \<Rightarrow> Inl (Error HTTP_404_NOT_FOUND ''Payment not found'')
      | Some payment \<Rightarrow>
     (let esewa = EsewaPayment_init (amount payment) (Some (amount payment)) uuid
                    default_success_url default_failure_url;
          verify_data = [ (''total_amount'', str_float L (amount payment)),
                          (''transaction_uuid'', uuid),
                          (''product_code'', TEST_PRODUCT_CODE) ]
      in
     if \<not> verify_signature L esewa signature verify_data
     then Inl (Error HTTP_400_BAD_REQUEST ''Invalid signature'')
     else
     (let s1 = s\<lparr> payments :=
                   update_first (\<lambda>p. transaction_uuid p = Some uuid)
                     (\<lambda>p. p\<lparr> p_status := P_COMPLETED,
                             esewa_ref_id := Some ref_id,
                             esewa_signature := Some signature,
                             completed_at := Some now \<rparr>) (payments s) \<rparr>
      in
     (case get_booking s1 (p_booking_id payment) of
        None \<Rightarrow> Inr s1
      | Some booking \<Rightarrow>
     if payment_type payment = ''booking_payment''
     then Inr (s1\<lparr> rooms := set_room_status (b_room_id booking) RESERVED (rooms s1) \<rparr>)
     else if payment_type payment \<in> set [''security_deposit'', ''advance'']
     then (if b_status booking = B_APPROVED
           then Inr (s1\<lparr> bookings :=
                          update_first (\<lambda>b. booking_id b = p_booking_id payment)
                            (\<lambda>b. b\<lparr> tenancy_status := Some T_ACTIVE \<rparr>) (bookings s1),
                        rooms := set_room_status (b_room_id booking) OCCUPIED (rooms s1) \<rparr>)
           else Inr s1)
     else Inr s1))))"

section \<open>Room endpoints (app/api/v1/rooms.py)\<close>

record RoomCreateRequest =
  rd_title :: string
  rd_room_type :: string
  rd_furnishing_status :: "string option"
  rd_price_per_month :: real
  rd_security_deposit :: "real option"
  rd_advance_payment :: "real option"

type_synonym StatusUpdateRequest = "string option"

text \<open>The text of a Python list of strings, as an f-string prints it.\<close>

fun join :: "string \<Rightarrow> string list \<Rightarrow> string" where
  "join sep [] = []"
| "join sep [x] = x"
| "join sep (x # y # ys) = x @ sep @ join sep (y # ys)"

definition list_repr :: "string list \<Rightarrow> string" where
  "list_repr vs = ''['' @ join '', '' (map (\<lambda>v. [CHR 0x27] @ v @ [CHR 0x27]) vs) @ '']''"

definition invalid_room_type :: error where
  "invalid_room_type =
     Error HTTP_400_BAD_REQUEST
       (''Invalid room type. Must be one of: ''
          @ list_repr (map room_type_value [SINGLE, DOUBLE, SHARED, APARTMENT, FLAT, HOUSE]))"

definition invalid_furnishing_status :: error where
  "invalid_furnishing_status =
     Error HTTP_400_BAD_REQUEST
       (''Invalid furnishing status. Must be one of: ''
          @ list_repr (map furnishing_status_value [FURNISHED, SEMI_FURNISHED, UNFURNISHED]))"

definition invalid_status :: error where
  "invalid_status =
     Error HTTP_400_BAD_REQUEST
       (''Invalid status. Must be one of: ''
          @ list_repr (map room_status_value
                         [AVAILABLE, OCCUPIED, RESERVED, UNDER_MAINTENANCE, INACTIVE]))"

text \<open>
  The validation both listing endpoints run on the body: the room type, then the
  furnishing status when one is given (an empty text counts as not given).
\<close>

definition validate_listing ::
  "RoomCreateRequest \<Rightarrow> error + (RoomType \<times> FurnishingStatus option)" where
  "validate_listing room_data =
     (case RoomType_of (lower (rd_room_type room_data)) of
        None \<Rightarrow> Inl invalid_room_type
      | Some room_type_enum \<Rightarrow>
     (case rd_furnishing_status room_data of
        None \<Rightarrow> Inr (room_type_enum, None)
      | Some f \<Rightarrow>
     if f = [] then Inr (room_type_enum, None)
     else (case FurnishingStatus_of (lower f) of
             None \<Rightarrow> Inl invalid_furnishing_status
           | Some furnishing_status_enum \<Rightarrow> Inr (room_type_enum, Some furnishing_status_enum))))"

definition create_room :: "db \<Rightarrow> RoomCreateRequest \<Rightarrow> error + db" where
  "create_room s room_data =
     (case first_landlord s of
        None \<Rightarrow> Inl (Error HTTP_400_BAD_REQUEST
                       ''No landlord user found. Please register as a landlord first.'')
      | Some landlord \<Rightarrow>
     (case validate_listing room_data of
        Inl e \<Rightarrow> Inl e
      | Inr (room_type_enum, furnishing_status_enum) \<Rightarrow>
          Inr (s\<lparr> rooms := rooms s @
                   [\<lparr> room_id = next_id (map room_id (rooms s)),
                      owner_id = user_id landlord,
                      title = rd_title room_data,
                      room_type = room_type_enum,
                      furnishing_status = furnishing_status_enum,
                      price_per_month = rd_price_per_month room_data,
                      r_security_deposit = rd_security_deposit room_data,
                      r_advance_payment = rd_advance_payment room_data,
                      r_status = AVAILABLE \<rparr>] \<rparr>)))"

definition update_room :: "db \<Rightarrow> int \<Rightarrow> RoomCreateRequest \<Rightarrow> error + db" where
  "update_room s rid room_data =
     (case get_room s rid of
        None \<Rightarrow> Inl (Error HTTP_404_NOT_FOUND ''Room listing not found'')
      | Some room \<Rightarrow>
     (case validate_listing room_data of
        Inl e \<Rightarrow> Inl e
      | Inr (room_type_enum, furnishing_status_enum) \<Rightarrow>
          Inr (s\<lparr> rooms :=
                    update_first (\<lambda>r. room_id r = rid)
                      (\<lambda>r. r\<lparr> title := rd_title room_data,
                              room_type := room_type_enum,
                              price_per_month := rd_price_per_month room_data,
                              r_security_deposit := rd_security_deposit room_data,
                              r_advance_payment := rd_advance_payment room_data,
                              furnishing_status := furnishing_status_enum \<rparr>) (rooms s) \<rparr>)))"

text \<open>
  \<^verbatim>\<open>delete_room\<close> removes the row of the room; what becomes of the rows that refer to
  it is the database's handling of the foreign keys and is not part of the endpoint.
\<close>

definition delete_room :: "db \<Rightarrow> int \<Rightarrow> error + db" where
  "delete_room s rid =
     (case get_room s rid of
        None \<Rightarrow> Inl (Error HTTP_404_NOT_FOUND ''Room listing not found'')
      | Some room \<Rightarrow> Inr (s\<lparr> rooms := delete_first (\<lambda>r. room_id r = rid) (rooms s) \<rparr>))"

definition update_room_status :: "db \<Rightarrow> int \<Rightarrow> StatusUpdateRequest \<Rightarrow> error + db" where
  "update_room_status s rid status_data =
     (case get_room s rid of
        None \<Rightarrow> Inl (Error HTTP_404_NOT_FOUND ''Room listing not found'')
      | Some room \<Rightarrow>
     (let new_status =
            (case status_data of
               None \<Rightarrow> if r_status room = AVAILABLE then ''occupied'' else ''available''
             | Some v \<Rightarrow> if v = [] then (if r_status room = AVAILABLE then ''occupied''
                                         else ''available'')
                         else v)
      in
     (case RoomStatus_of (lower new_status) of
        None \<Rightarrow> Inl invalid_status
      | Some status_enum \<Rightarrow> Inr (s\<lparr> rooms := set_room_status rid status_enum (rooms s) \<rparr>))))"

section \<open>The system as a transition system\<close>

text \<open>
  One constructor per state-changing endpoint, with the arguments of the request and the
  values the endpoint draws from its environment (the fresh identifier, the clock).
\<close>

datatype operation =
    CreateBookingRequest BookingRequest string
  | ApproveBooking int datetime
  | RejectBooking int "RejectRequest option"
  | InitiatePayment int PaymentRequest string
  | VerifyPayment string string string datetime
  | CreateRoom RoomCreateRequest
  | UpdateRoom int RoomCreateRequest
  | DeleteRoom int
  | UpdateRoomStatus int StatusUpdateRequest

fun step :: "pylib \<Rightarrow> db \<Rightarrow> operation \<Rightarrow> error + db" where
  "step L s (CreateBookingRequest booking_data uuid) = create_booking_request s booking_data uuid"
| "step L s (ApproveBooking bid now) = approve_booking s bid now"
| "step L s (RejectBooking bid reject_data) = reject_booking s bid reject_data"
| "step L s (InitiatePayment bid payment_data uuid) = initiate_payment s bid payment_data uuid"
| "step L s (VerifyPayment uuid ref_id signature now) = verify_payment L s uuid ref_id signature now"
| "step L s (CreateRoom room_data) = create_room s room_data"
| "step L s (UpdateRoom rid room_data) = update_room s rid room_data"
| "step L s (DeleteRoom rid) = delete_room s rid"
| "step L s (UpdateRoomStatus rid status_data) = update_room_status s rid status_data"

text \<open>A request that is answered with an error leaves the database as it was.\<close>

definition exec :: "pylib \<Rightarrow> db \<Rightarrow> operation \<Rightarrow> db" where
  "exec L s op = (case step L s op of Inl e \<Rightarrow> s | Inr s' \<Rightarrow> s')"

fun run :: "pylib \<Rightarrow> db \<Rightarrow> operation list \<Rightarrow> db" where
  "run L s [] = s"
| "run L s (op # ops) = run L (exec L s op) ops"

text \<open>The database before any listing or booking exists: only registered users.\<close>

definition init_db :: "User list \<Rightarrow> db" where
  "init_db us = \<lparr> users = us, rooms = [], bookings = [], payments = [] \<rparr>"

section \<open>State predicates of the specification\<close>





text \<open>The transitions of \<^verbatim>\<open>Booking.status\<close> the specification allows.\<close>

definition allowed_transition :: "BookingStatus \<Rightarrow> BookingStatus \<Rightarrow> bool" where
  "allowed_transition a b =
     ((a = B_PENDING \<and> b \<in> set [B_APPROVED, B_REJECTED, B_CANCELLED])
      \<or> (a = B_APPROVED \<and> b \<in> set [B_COMPLETED, B_CANCELLED]))"

definition terminal :: "BookingStatus \<Rightarrow> bool" where
  "terminal a = (a \<in> set [B_REJECTED, B_CANCELLED, B_COMPLETED])"

text \<open>
  The signature on the form an endpoint builds for a payment of amount \<open>a\<close> under the
  transaction id \<open>uuid\<close>; the gateway hands it back in its callback.
\<close>

definition gateway_signature :: "pylib \<Rightarrow> real \<Rightarrow> string \<Rightarrow> string" where
  "gateway_signature L a uuid =
     generate_signature L
       (EsewaPayment_init a (Some a) uuid default_success_url default_failure_url)"

section \<open>Example data\<close>

text \<open>
  The examples run the endpoints with a concrete pair of library functions. Every
  signature they present is computed with the same pair, so the runs do not depend on the
  choice. Two users are registered, a landlord and a tenant; the landlord lists a room
  with deposit 5000 and advance 3000.
\<close>

definition sample_lib :: pylib where
  "sample_lib =
     \<lparr> hmac_sha256_b64 = (\<lambda>k m. k @ m),
       str_float = (\<lambda>x. if x = 8000 then ''8000.0'' else if x = 8001 then ''8001.0''
                         else if x = 5000 then ''5000.0'' else ''0.0'') \<rparr>"

definition sample_users :: "User list" where
  "sample_users =
     [\<lparr>user_id = 1, user_type = ''LANDLORD''\<rparr>, \<lparr>user_id = 2, user_type = ''TENANT''\<rparr>]"

definition sample_room :: RoomCreateRequest where
  "sample_room =
     \<lparr> rd_title = ''Sunny room'', rd_room_type = ''Single'', rd_furnishing_status = None,
       rd_price_per_month = 12000, rd_security_deposit = Some 5000,
       rd_advance_payment = Some 3000 \<rparr>"

definition sample_request :: BookingRequest where
  "sample_request =
     \<lparr> bd_room_id = 1, bd_start_date = Some 100, bd_end_date = None,
       bd_tenant_message = None \<rparr>"

definition listed_db :: db where
  "listed_db = run sample_lib (init_db sample_users) [CreateRoom sample_room]"

definition requested_db :: db where
  "requested_db = run sample_lib listed_db [CreateBookingRequest sample_request ''u1'']"

definition rejected_db :: db where
  "rejected_db = run sample_lib requested_db [RejectBooking 1 None]"


definition sample_esewa :: EsewaPayment where
  "sample_esewa =
     EsewaPayment_init 8000 (Some 8000) ''u1'' default_success_url default_failure_url"

text \<open>A dictionary of fields with the value under \<^verbatim>\<open>total_amount\<close> replaced.\<close>

definition with_total_amount ::
  "string \<Rightarrow> (string \<times> string) list \<Rightarrow> (string \<times> string) list" where
  "with_total_amount v data =
     map (\<lambda>(k, w). if k = ''total_amount'' then (k, v) else (k, w)) data"






text \<open>
  The callback for the payment of the request, delivered once, delivered a second time
  with another reference, and delivered again after the landlord rejected the booking.
\<close>

definition verified_db :: db where
  "verified_db =
     run sample_lib requested_db
       [VerifyPayment ''u1'' ''ref'' (gateway_signature sample_lib 8000 ''u1'') 200]"

definition reverified_db :: db where
  "reverified_db =
     run sample_lib verified_db
       [VerifyPayment ''u1'' ''ref2'' (gateway_signature sample_lib 8000 ''u1'') 300]"

definition paid_then_rejected_db :: db where
  "paid_then_rejected_db = run sample_lib verified_db [RejectBooking 1 None]"

definition redelivered_db :: db where
  "redelivered_db =
     run sample_lib paid_then_rejected_db
       [VerifyPayment ''u1'' ''ref'' (gateway_signature sample_lib 8000 ''u1'') 300]"


definition approved_db :: db where
  "approved_db = run sample_lib requested_db [ApproveBooking 1 150]"

definition deposit_request :: PaymentRequest where
  "deposit_request =
     \<lparr> pd_booking_id = 1, pd_payment_type = ''security_deposit'', pd_payment_month = None \<rparr>"

definition occupied_db :: db where
  "occupied_db =
     run sample_lib approved_db
       [InitiatePayment 1 deposit_request ''u2'',
        VerifyPayment ''u2'' ''ref'' (gateway_signature sample_lib 5000 ''u2'') 200]"

definition cancelled_db :: db where
  "cancelled_db =
     requested_db\<lparr> bookings := map (\<lambda>b. b\<lparr>b_status := B_CANCELLED\<rparr>) (bookings requested_db) \<rparr>"

section \<open>Lemmas on tables and signatures\<close>

lemma find_update_first_same:
  "(\<And>x. P x \<Longrightarrow> P (f x)) \<Longrightarrow> find P (update_first P f xs) = map_option f (find P xs)"
  by (induction xs) auto

lemma update_first_idem:
  "(\<And>x. P x \<Longrightarrow> P (f x)) \<Longrightarrow> (\<And>x. g (f x) = g x) \<Longrightarrow>
     update_first P g (update_first P f xs) = update_first P g xs"
  by (induction xs) auto

lemma update_first_None: "find P xs = None \<Longrightarrow> update_first P f xs = xs"
  by (induction xs) (auto split: if_splits)







lemma verify_gateway_signature:
  "verify_signature L (EsewaPayment_init a tot uuid su fu) (gateway_signature L a uuid)
     [(''total_amount'', str_float L a), (''transaction_uuid'', uuid),
      (''product_code'', TEST_PRODUCT_CODE)]"
  by (simp add: verify_signature_def generate_signature_def get_str_def EsewaPayment_init_def
      gateway_signature_def)

lemma string_to_sign_inj:
  "string_to_sign a uuid code = string_to_sign a' uuid code \<Longrightarrow> a = a'"
  by (simp add: string_to_sign_def)

lemma set_room_status_twice:
  "set_room_status rid st (set_room_status rid st rs) = set_room_status rid st rs"
  by (simp add: set_room_status_def update_first_idem)












section \<open>Properties of the lifecycle\<close>

text \<open>
  C10. Whenever \<^verbatim>\<open>verify_payment\<close> completes a payment of type \<^verbatim>\<open>booking_payment\<close> whose
  booking and room exist, the room is Reserved afterwards, whatever the status of the
  booking and of the room were; no booking is changed. The callback with the gateway's
  signature is accepted, so this also holds for a callback that arrives after the
  booking was rejected and the room went back to Available.
\<close>

theorem verify_booking_payment_reserves:
  assumes "get_payment s uuid = Some p"
    and "payment_type p = ''booking_payment''"
    and "get_booking s (p_booking_id p) = Some b"
    and "get_room s (b_room_id b) = Some r"
  shows "\<exists>s'. verify_payment L s uuid ref_id (gateway_signature L (amount p) uuid) now = Inr s'
            \<and> map_option r_status (get_room s' (b_room_id b)) = Some RESERVED
            \<and> bookings s' = bookings s"
  using assms
  by (simp add: verify_payment_def Let_def verify_gateway_signature get_booking_def
      get_room_def set_room_status_def find_update_first_same)

theorem verify_booking_payment_reserves_witness:
  "map_option b_status (get_booking rejected_db 1) = Some B_REJECTED
   \<and> map_option r_status (get_room rejected_db 1) = Some AVAILABLE
   \<and> (\<exists>s'. verify_payment sample_lib rejected_db ''u1'' ''ref''
              (gateway_signature sample_lib 8000 ''u1'') 300 = Inr s'
           \<and> map_option r_status (get_room s' 1) = Some RESERVED
           \<and> bookings s' = bookings rejected_db)"
proof -
  let ?p = "the (get_payment rejected_db ''u1'')"
  let ?b = "the (get_booking rejected_db 1)"
  let ?r = "the (get_room rejected_db 1)"
  have p: "get_payment rejected_db ''u1'' = Some ?p" by code_simp
  have t: "payment_type ?p = ''booking_payment''" by code_simp
  have a: "amount ?p = 8000" by code_simp
  have b: "get_booking rejected_db (p_booking_id ?p) = Some ?b" by code_simp
  have ri: "b_room_id ?b = 1" by code_simp
  have r: "get_room rejected_db (b_room_id ?b) = Some ?r" by code_simp
  have c1: "map_option b_status (get_booking rejected_db 1) = Some B_REJECTED" by code_simp
  have c2: "map_option r_status (get_room rejected_db 1) = Some AVAILABLE" by code_simp
  from verify_booking_payment_reserves [OF p t b r, of sample_lib "''ref''" 300]
  have c3: "\<exists>s'. verify_payment sample_lib rejected_db ''u1'' ''ref''
                  (gateway_signature sample_lib 8000 ''u1'') 300 = Inr s'
              \<and> map_option r_status (get_room s' 1) = Some RESERVED
              \<and> bookings s' = bookings rejected_db"
    by (simp only: a ri)
  show ?thesis using c1 c2 c3 by blast
qed




text \<open>
  C9. Signature round trip: the signature on the form the adapter builds verifies against
  the fields of that form, for every amount, transaction id, product code and key. With
  the amount field replaced by the text of another amount it does not verify, provided
  the two amounts print differently and the keyed hash has no collision (the usual
  idealisation of HMAC-SHA256, stated as injectivity).
\<close>

theorem signature_round_trip:
  "verify_signature L e (get_str (generate_form_data L e) ''signature'') (generate_form_data L e)
   \<and> (inj (hmac_sha256_b64 L (secret_key e))
        \<longrightarrow> str_float L a' \<noteq> str_float L (total_amount e)
        \<longrightarrow> \<not> verify_signature L e (get_str (generate_form_data L e) ''signature'')
               (with_total_amount (str_float L a') (generate_form_data L e)))"
  by (auto simp: verify_signature_def generate_form_data_def get_str_def generate_signature_def
      with_total_amount_def dest!: injD string_to_sign_inj)

theorem signature_round_trip_witness:
  "verify_signature sample_lib sample_esewa
     (get_str (generate_form_data sample_lib sample_esewa) ''signature'')
     (generate_form_data sample_lib sample_esewa)
   \<and> \<not> verify_signature sample_lib sample_esewa
         (get_str (generate_form_data sample_lib sample_esewa) ''signature'')
         (with_total_amount (str_float sample_lib (total_amount sample_esewa + 1))
            (generate_form_data sample_lib sample_esewa))"
proof -
  have i: "inj (hmac_sha256_b64 sample_lib (secret_key sample_esewa))"
    by (simp add: sample_lib_def inj_on_def)
  have d: "str_float sample_lib (total_amount sample_esewa + 1)
             \<noteq> str_float sample_lib (total_amount sample_esewa)"
    by (simp add: sample_lib_def sample_esewa_def EsewaPayment_init_def)
  from signature_round_trip [of sample_lib sample_esewa "total_amount sample_esewa + 1"] i d
  show ?thesis by blast
qed

text \<open>
  C8. \<^verbatim>\<open>verify_payment\<close> has no amount argument: whether a callback for a stored payment
  is accepted does not depend on the reference id or the clock, and it is accepted exactly
  when the signature is the one over the stored amount, the transaction id and the
  product code. A signature computed over another amount is answered with
  \<^verbatim>\<open>Invalid signature\<close>, provided the two amounts print differently and the keyed hash
  has no collision.
\<close>

theorem verify_payment_amount_from_record:
  assumes "get_payment s uuid = Some p"
  shows "(isl (verify_payment L s uuid ref_id signature now)
            = isl (verify_payment L s uuid ref_id' signature now'))
       \<and> (\<not> isl (verify_payment L s uuid ref_id signature now)
            \<longleftrightarrow> signature = gateway_signature L (amount p) uuid)
       \<and> (inj (hmac_sha256_b64 L TEST_SECRET_KEY)
            \<longrightarrow> str_float L a \<noteq> str_float L (amount p)
            \<longrightarrow> verify_payment L s uuid ref_id (gateway_signature L a uuid) now
                  = Inl (Error HTTP_400_BAD_REQUEST ''Invalid signature''))"
proof -
  have v: "\<And>sg. verify_signature L
             (EsewaPayment_init (amount p) (Some (amount p)) uuid default_success_url
                default_failure_url) sg
             [(''total_amount'', str_float L (amount p)), (''transaction_uuid'', uuid),
              (''product_code'', TEST_PRODUCT_CODE)]
           \<longleftrightarrow> sg = gateway_signature L (amount p) uuid"
    by (simp add: verify_signature_def gateway_signature_def generate_signature_def get_str_def
        EsewaPayment_init_def)
  have acc: "\<And>r sg n. \<not> isl (verify_payment L s uuid r sg n)
               \<longleftrightarrow> sg = gateway_signature L (amount p) uuid"
    using assms by (auto simp: verify_payment_def Let_def v split: option.splits)
  have rej: "\<And>sg. sg \<noteq> gateway_signature L (amount p) uuid \<Longrightarrow>
               verify_payment L s uuid ref_id sg now
                 = Inl (Error HTTP_400_BAD_REQUEST ''Invalid signature'')"
    using assms by (simp add: verify_payment_def Let_def v)
  have diff: "inj (hmac_sha256_b64 L TEST_SECRET_KEY) \<Longrightarrow> str_float L a \<noteq> str_float L (amount p)
               \<Longrightarrow> gateway_signature L a uuid \<noteq> gateway_signature L (amount p) uuid"
    by (auto simp: gateway_signature_def generate_signature_def EsewaPayment_init_def
        dest!: injD string_to_sign_inj)
  show ?thesis using acc rej diff by metis
qed

theorem verify_payment_amount_from_record_witness:
  "\<not> isl (verify_payment sample_lib requested_db ''u1'' ''ref'' (gateway_signature sample_lib 8000 ''u1'') 200)
   \<and> verify_payment sample_lib requested_db ''u1'' ''ref'' (gateway_signature sample_lib 8001 ''u1'') 200
       = Inl (Error HTTP_400_BAD_REQUEST ''Invalid signature'')"
proof -
  let ?p = "the (get_payment requested_db ''u1'')"
  have p: "get_payment requested_db ''u1'' = Some ?p" by code_simp
  have a: "amount ?p = 8000" by code_simp
  have i: "inj (hmac_sha256_b64 sample_lib TEST_SECRET_KEY)"
    by (simp add: sample_lib_def inj_on_def)
  have d: "str_float sample_lib 8001 \<noteq> str_float sample_lib (amount ?p)"
    by (simp add: a sample_lib_def)
  from verify_payment_amount_from_record [OF p, of sample_lib "''ref''" _ 200 "''ref''" 200 8001] i d
  show ?thesis by (simp add: a)
qed





text \<open>
  C2. \<^verbatim>\<open>verify_payment\<close> does not look at the status of the payment, so a second callback
  is not a no-op: it overwrites the reference id and \<^verbatim>\<open>completed_at\<close> and applies the
  effect on the room again. What holds is that a second
  callback right after an accepted one is accepted too, leaves bookings, rooms and users
  as the first one left them, and leaves the payment Completed with the reference id and
  completion time of the second call.
\<close>

theorem reverify_counterexample:
  "map_option p_status (get_payment verified_db ''u1'') = Some P_COMPLETED
   \<and> map_option completed_at (get_payment verified_db ''u1'') = Some (Some 200)
   \<and> map_option esewa_ref_id (get_payment verified_db ''u1'') = Some (Some ''ref'')
   \<and> map_option completed_at (get_payment reverified_db ''u1'') = Some (Some 300)
   \<and> map_option esewa_ref_id (get_payment reverified_db ''u1'') = Some (Some ''ref2'')
   \<and> map_option p_status (get_payment paid_then_rejected_db ''u1'') = Some P_COMPLETED
   \<and> map_option r_status (get_room paid_then_rejected_db 1) = Some AVAILABLE
   \<and> map_option r_status (get_room redelivered_db 1) = Some RESERVED"
  by code_simp

theorem verify_payment_twice:
  assumes "verify_payment L s uuid ref_id signature now = Inr s1"
  shows "\<exists>s2. verify_payment L s1 uuid ref_id' signature now' = Inr s2
           \<and> bookings s2 = bookings s1 \<and> rooms s2 = rooms s1 \<and> users s2 = users s1
           \<and> map_option p_status (get_payment s2 uuid) = Some P_COMPLETED
           \<and> map_option esewa_ref_id (get_payment s2 uuid) = Some (Some ref_id')
           \<and> map_option completed_at (get_payment s2 uuid) = Some (Some now')"
proof -
  from assms obtain p where p: "get_payment s uuid = Some p"
    by (auto simp: verify_payment_def split: option.splits)
  show ?thesis
    using assms p
    by (auto simp: verify_payment_def Let_def get_payment_def get_booking_def
        find_update_first_same set_room_status_twice update_first_idem
        split: option.splits if_splits)
qed

theorem verify_payment_twice_witness:
  "\<exists>s2. verify_payment sample_lib verified_db ''u1'' ''ref2''
           (gateway_signature sample_lib 8000 ''u1'') 300 = Inr s2
      \<and> bookings s2 = bookings verified_db \<and> rooms s2 = rooms verified_db
      \<and> users s2 = users verified_db
      \<and> map_option p_status (get_payment s2 ''u1'') = Some P_COMPLETED
      \<and> map_option esewa_ref_id (get_payment s2 ''u1'') = Some (Some ''ref2'')
      \<and> map_option completed_at (get_payment s2 ''u1'') = Some (Some 300)"
proof -
  have "\<not> isl (verify_payment sample_lib requested_db ''u1'' ''ref''
                 (gateway_signature sample_lib 8000 ''u1'') 200)"
    by code_simp
  then obtain s1 where s1: "verify_payment sample_lib requested_db ''u1'' ''ref''
                              (gateway_signature sample_lib 8000 ''u1'') 200 = Inr s1"
    by (cases "verify_payment sample_lib requested_db ''u1'' ''ref''
                 (gateway_signature sample_lib 8000 ''u1'') 200") auto
  then have "s1 = verified_db" by (simp add: verified_db_def exec_def)
  with verify_payment_twice [OF s1, of "''ref2''" 300] show ?thesis by simp
qed








text \<open>
  C4. A tenancy is Active only on an Approved booking. \<^verbatim>\<open>reject_booking\<close> has no test
  of the current status, unlike \<^verbatim>\<open>approve_booking\<close>: rejecting the booking of an Active
  tenancy sets the status to Rejected and the room to Available and leaves the tenancy
  Active.
\<close>

theorem reject_leaves_tenancy_active:
  "map_option b_status (get_booking occupied_db 1) = Some B_APPROVED
   \<and> map_option tenancy_status (get_booking occupied_db 1) = Some (Some T_ACTIVE)
   \<and> map_option b_status (get_booking (run sample_lib occupied_db [RejectBooking 1 None]) 1)
       = Some B_REJECTED
   \<and> map_option tenancy_status
        (get_booking (run sample_lib occupied_db [RejectBooking 1 None]) 1)
       = Some (Some T_ACTIVE)
   \<and> map_option r_status (get_room (run sample_lib occupied_db [RejectBooking 1 None]) 1)
       = Some AVAILABLE"
  by code_simp

text \<open>
  C5. The allowed transitions of the booking status. \<^verbatim>\<open>reject_booking\<close> sets Rejected
  from any status: it takes an Approved booking to Rejected, which is not an allowed
  transition, and a Cancelled booking, which is terminal, to Rejected.
\<close>

theorem reject_ignores_status:
  "map_option b_status (get_booking approved_db 1) = Some B_APPROVED
   \<and> map_option b_status (get_booking (run sample_lib approved_db [RejectBooking 1 None]) 1)
       = Some B_REJECTED
   \<and> \<not> allowed_transition B_APPROVED B_REJECTED
   \<and> map_option b_status (get_booking cancelled_db 1) = Some B_CANCELLED
   \<and> terminal B_CANCELLED
   \<and> map_option b_status (get_booking (run sample_lib cancelled_db [RejectBooking 1 None]) 1)
       = Some B_REJECTED"
  by code_simp

end
